theory Spec2Isabelle
  imports Main
begin

section \<open>Values, objects and the heap\<close>

text \<open>
  The listener of \<^verbatim>\<open>src/broadcastlistener/activity.listener.ts\<close> receives a
  reference to a payload object and talks to four collaborators: the Nest logger, the CLS
  service, the TypeORM repository and the Elasticsearch service. Objects live in a heap
  and are passed by reference; an object is a finite map from property names to values.
  The only property values the payload type has are strings and one number, which the
  handler copies and never computes with.
\<close>

datatype js_value = JString string | JNumber int

type_synonym js_object = "string \<rightharpoonup> js_value"

type_synonym ref = nat

datatype js_error =
    TypeError string   \<comment> \<open>raised by the language: property read on null or undefined\<close>
  | Rejected string    \<comment> \<open>raised by a collaborator: connection lost, constraint, timeout\<close>

datatype level = LOG | ERROR | WARN

text \<open>What the collaborators see of one run of the handler, in the order it happens.\<close>

datatype event =
    Logged level string "js_error option"
  | ScopeOpened
  | ScopeSet string "js_value option"
  | ScopeClosed
  | SaveStarted ref
  | SaveFinished bool
  | IndexStarted string ref
  | IndexFinished bool

record state =
  heap :: "js_object list"
  cls :: "js_object option"
  rows :: "js_object list"
  next_id :: nat
  documents :: "(string \<times> js_object) list"
  trace :: "event list"

text \<open>
  A date as the UTC fields \<^verbatim>\<open>Date.prototype.toISOString\<close> prints.
\<close>

record date =
  year :: nat
  month :: nat
  day :: nat
  hours :: nat
  minutes :: nat
  seconds :: nat
  milliseconds :: nat

text \<open>
  What the handler cannot decide: whether the relational store accepts an entity, whether
  the search backend at a node accepts a document, and what the two clocks read.
\<close>

record world =
  save_fault :: "js_object \<Rightarrow> js_error option"
  index_fault :: "string \<Rightarrow> js_error option"
  db_now :: string
  clock :: date

section \<open>Computations that may throw\<close>

type_synonym 'a io = "state \<Rightarrow> (js_error + 'a) \<times> state"

definition returnM :: "'a \<Rightarrow> 'a io" where
  "returnM x s = (Inr x, s)"

text \<open>Sequencing (\<^verbatim>\<open>await a; b\<close>): an error of the first part skips the second.\<close>

definition bindM :: "'a io \<Rightarrow> ('a \<Rightarrow> 'b io) \<Rightarrow> 'b io" where
  "bindM m f s = (case m s of (Inl e, s') \<Rightarrow> (Inl e, s') | (Inr x, s') \<Rightarrow> f x s')"

text \<open>\<^verbatim>\<open>try { m } catch (e) { h(e) }\<close>\<close>

definition try_catch :: "'a io \<Rightarrow> (js_error \<Rightarrow> 'a io) \<Rightarrow> 'a io" where
  "try_catch m h s = (case m s of (Inl e, s') \<Rightarrow> h e s' | (Inr x, s') \<Rightarrow> (Inr x, s'))"

definition emit :: "event \<Rightarrow> unit io" where
  "emit ev s = (Inr (), s\<lparr>trace := trace s @ [ev]\<rparr>)"

section \<open>The language: property reads, template literals, object literals, dates\<close>

text \<open>
  A reference always denotes an allocated object in JavaScript; outside the heap the model
  reads an object without properties. The heap only grows: an allocation takes the next
  position.
\<close>

definition deref :: "js_object list \<Rightarrow> ref \<Rightarrow> js_object" where
  "deref h r = (if r < length h then h ! r else Map.empty)"

text \<open>
  \<^verbatim>\<open>obj.key\<close>: a TypeError when \<^verbatim>\<open>obj\<close> is null or undefined (\<open>None\<close>),
  otherwise the property's value, undefined (\<open>None\<close>) when the object has no such property.
\<close>

definition get_property :: "ref option \<Rightarrow> string \<Rightarrow> js_value option io" where
  "get_property obj key s =
     (case obj of
        None \<Rightarrow> (Inl (TypeError (''Cannot read properties of undefined (reading '' @ key @ '')'')), s)
      | Some r \<Rightarrow> (Inr (deref (heap s) r key), s))"

definition digit :: "nat \<Rightarrow> char" where
  "digit d = ''0123456789'' ! d"

fun nat_to_string :: "nat \<Rightarrow> string" where
  "nat_to_string n = (if n < 10 then [digit n] else nat_to_string (n div 10) @ [digit (n mod 10)])"

definition number_to_string :: "int \<Rightarrow> string" where
  "number_to_string i = (if i < 0 then ''-'' @ nat_to_string (nat (- i)) else nat_to_string (nat i))"

text \<open>The string a template literal \<^verbatim>\<open>`${v}`\<close> puts in place of a value.\<close>

fun template :: "js_value option \<Rightarrow> string" where
  "template None = ''undefined''"
| "template (Some (JString s)) = s"
| "template (Some (JNumber n)) = number_to_string n"

text \<open>
  \<^verbatim>\<open>{ ...obj }\<close> copies the own properties of \<^verbatim>\<open>obj\<close>; spreading null or undefined
  copies nothing and does not throw.
\<close>

definition spread :: "ref option \<Rightarrow> js_object io" where
  "spread obj s = (Inr (case obj of None \<Rightarrow> Map.empty | Some r \<Rightarrow> deref (heap s) r), s)"

text \<open>An object literal allocates a fresh object at the end of the heap.\<close>

definition new_object :: "js_object \<Rightarrow> ref io" where
  "new_object props s = (Inr (length (heap s)), s\<lparr>heap := heap s @ [props]\<rparr>)"

definition pad2 :: "nat \<Rightarrow> string" where
  "pad2 n = [digit (n div 10), digit (n mod 10)]"

definition pad3 :: "nat \<Rightarrow> string" where
  "pad3 n = [digit (n div 100), digit (n div 10 mod 10), digit (n mod 10)]"

definition pad4 :: "nat \<Rightarrow> string" where
  "pad4 n = [digit (n div 1000), digit (n div 100 mod 10), digit (n div 10 mod 10), digit (n mod 10)]"

text \<open>
  \<^verbatim>\<open>toISOString\<close> for the years 0 to 9999, the four-digit form
  \<^verbatim>\<open>YYYY-MM-DDTHH:mm:ss.sssZ\<close>.
\<close>

definition toISOString :: "date \<Rightarrow> string" where
  "toISOString d =
     pad4 (year d) @ ''-'' @ pad2 (month d) @ ''-'' @ pad2 (day d) @ ''T'' @
     pad2 (hours d) @ '':'' @ pad2 (minutes d) @ '':'' @ pad2 (seconds d) @ ''.'' @
     pad3 (milliseconds d) @ ''Z''"

text \<open>\<^verbatim>\<open>new Date().toISOString()\<close> reads the process clock.\<close>

definition new_Date_toISOString :: "world \<Rightarrow> string io" where
  "new_Date_toISOString w s = (Inr (toISOString (clock w)), s)"

section \<open>The collaborators\<close>

subsection \<open>Logger\<close>

text \<open>
  \<^verbatim>\<open>this.logger.log\<close>, \<^verbatim>\<open>error\<close> and \<^verbatim>\<open>warn\<close> of the Nest logger write a
  line and return.
\<close>

definition logger_log :: "string \<Rightarrow> unit io" where
  "logger_log message = emit (Logged LOG message None)"

definition logger_error :: "string \<Rightarrow> js_error \<Rightarrow> unit io" where
  "logger_error message e = emit (Logged ERROR message (Some e))"

definition logger_warn :: "string \<Rightarrow> unit io" where
  "logger_warn message = emit (Logged WARN message None)"

subsection \<open>CLS service\<close>

text \<open>
  \<^verbatim>\<open>clsService.run(callback)\<close> of nestjs-cls runs the callback in a fresh context
  (\<^verbatim>\<open>AsyncLocalStorage.run\<close>): the new store is what the callback and everything it
  awaits see; when the callback has settled, with a value or with an error, the caller is
  back in the context it had before, and the callback's outcome is the outcome of
  \<^verbatim>\<open>run\<close>.
\<close>

definition clsService_run :: "'a io \<Rightarrow> 'a io" where
  "clsService_run callback s =
     (let outer = cls s;
          (r, s') = callback (s\<lparr>cls := Some Map.empty, trace := trace s @ [ScopeOpened]\<rparr>)
      in (r, s'\<lparr>cls := outer, trace := trace s' @ [ScopeClosed]\<rparr>))"

text \<open>\<^verbatim>\<open>clsService.set(key, value)\<close> writes to the active store and throws without one.\<close>

definition clsService_set :: "string \<Rightarrow> js_value option \<Rightarrow> unit io" where
  "clsService_set key v s =
     (case cls s of
        None \<Rightarrow> (Inl (Rejected ''No CLS context available''), s)
      | Some store \<Rightarrow>
          (Inr (), s\<lparr>cls := Some (store(key := v)), trace := trace s @ [ScopeSet key v]\<rparr>))"

subsection \<open>Repository\<close>

text \<open>
  Modelled from the spec: the columns of the \<^verbatim>\<open>ActivityLog\<close> entity, whose file
  \<^verbatim>\<open>activity.entity.ts\<close> is not among the sources; they are the columns of the
  relational schema.
\<close>

definition entity_columns :: "string set" where
  "entity_columns = {''id'', ''timestamp'', ''userId'', ''url'', ''processType'', ''responseTimeMs''}"

text \<open>
  \<^verbatim>\<open>logRepository.create(plain)\<close> of TypeORM makes a new entity instance and copies the
  entity's columns from the plain object into it; it touches no store.
\<close>

definition logRepository_create :: "ref option \<Rightarrow> ref io" where
  "logRepository_create plain s =
     new_object ((case plain of None \<Rightarrow> Map.empty | Some r \<Rightarrow> deref (heap s) r) |` entity_columns) s"

definition has_id :: "js_value \<Rightarrow> js_object \<Rightarrow> bool" where
  "has_id i row = (row ''id'' = Some i)"

text \<open>
  What the store does with an entity it accepts, given its rows and its next generated
  key; the result is the entity as the store returns it, the rows and the next key. An
  entity without a primary key is inserted under a generated \<^verbatim>\<open>id\<close>; an entity
  whose primary key no row has is inserted under its own; the store stamps an inserted row
  with its \<^verbatim>\<open>timestamp\<close>. An entity whose primary key a row has updates that row.
\<close>

definition upsert :: "string \<Rightarrow> js_object \<Rightarrow> js_object list \<Rightarrow> nat \<Rightarrow> js_object \<times> js_object list \<times> nat" where
  "upsert now entity table next =
     (case entity ''id'' of
        None \<Rightarrow>
          (let row = entity(''id'' \<mapsto> JNumber (int next), ''timestamp'' \<mapsto> JString now)
           in (row, table @ [row], Suc next))
      | Some i \<Rightarrow>
          (if list_ex (has_id i) table
           then (entity, map (\<lambda>row. if has_id i row then row ++ entity else row) table, next)
           else (let row = entity(''timestamp'' \<mapsto> JString now)
                 in (row, table @ [row], next))))"

text \<open>
  \<^verbatim>\<open>logRepository.save(entity)\<close> of TypeORM: the store inserts or updates, and the
  entity object receives the generated columns. A store that does not accept the write
  rejects, and nothing is written.
\<close>

definition logRepository_save :: "world \<Rightarrow> ref \<Rightarrow> unit io" where
  "logRepository_save w e s =
     (let entity = deref (heap s) e;
          s1 = s\<lparr>trace := trace s @ [SaveStarted e]\<rparr>
      in case save_fault w entity of
           Some err \<Rightarrow> (Inl err, s1\<lparr>trace := trace s1 @ [SaveFinished False]\<rparr>)
         | None \<Rightarrow>
             (case upsert (db_now w) entity (rows s1) (next_id s1) of
                (saved, table, next) \<Rightarrow>
                  (Inr (), s1\<lparr>heap := (heap s1)[e := saved], rows := table, next_id := next,
                                 trace := trace s1 @ [SaveFinished True]\<rparr>)))"

subsection \<open>Elasticsearch service\<close>

record es_options =
  node :: string

text \<open>
  \<^verbatim>\<open>elasticsearchService.index({ index, body })\<close> without a document id adds one
  document to the index, or rejects when the backend at the configured node does not
  accept it. Of the request object the call keeps the index name and the body.
\<close>

definition elasticsearchService_index :: "world \<Rightarrow> es_options \<Rightarrow> string \<Rightarrow> ref \<Rightarrow> unit io" where
  "elasticsearchService_index w es index body s =
     (let s1 = s\<lparr>trace := trace s @ [IndexStarted index body]\<rparr>
      in case index_fault w (node es) of
           Some err \<Rightarrow> (Inl err, s1\<lparr>trace := trace s1 @ [IndexFinished False]\<rparr>)
         | None \<Rightarrow>
             (Inr (), s1\<lparr>documents := documents s1 @ [(index, deref (heap s1) body)],
                            trace := trace s1 @ [IndexFinished True]\<rparr>))"

section \<open>The search module\<close>

text \<open>
  \<^verbatim>\<open>useFactory\<close> of \<^verbatim>\<open>src/search/search.module.ts\<close>:
  \<^verbatim>\<open>configService.get('ELASTICSEARCH_NODE') || 'http://localhost:9200'\<close>. The
  configuration maps names to strings; an absent name reads undefined, and undefined and
  the empty string are the falsy values that \<^verbatim>\<open>||\<close> replaces.
\<close>

definition useFactory :: "(string \<rightharpoonup> string) \<Rightarrow> es_options" where
  "useFactory configService =
     \<lparr>node = (case configService ''ELASTICSEARCH_NODE'' of
                None \<Rightarrow> ''http://localhost:9200''
              | Some v \<Rightarrow> if v = [] then ''http://localhost:9200'' else v)\<rparr>"

section \<open>The listener\<close>

text \<open>
  The injected fields of \<^verbatim>\<open>ActivityLogListener\<close>. The repository and the CLS service
  are always there; the handler tests only \<^verbatim>\<open>this.elasticsearchService\<close> for
  presence, so that field is optional here (\<open>None\<close> for undefined).
\<close>

record listener =
  elasticsearchService :: "es_options option"

text \<open>
  The listener as the application wires it: \<^verbatim>\<open>BroadcastlistenerModule\<close> imports
  \<^verbatim>\<open>SearchModule\<close>, which registers the Elasticsearch module with the options of
  \<^verbatim>\<open>useFactory\<close> and exports it; the constructor parameter is not marked optional,
  so Nest injects the service built from these options.
\<close>

definition ActivityLogListener :: "(string \<rightharpoonup> string) \<Rightarrow> listener" where
  "ActivityLogListener configService = \<lparr>elasticsearchService = Some (useFactory configService)\<rparr>"

text \<open>
  \<^verbatim>\<open>handleLogEvent(payload)\<close>, statement by statement. The template literal of the
  first statement reads \<^verbatim>\<open>payload.userId\<close> and \<^verbatim>\<open>payload.url\<close> before either
  \<^verbatim>\<open>try\<close> block is entered.
\<close>

definition handleLogEvent :: "listener \<Rightarrow> world \<Rightarrow> ref option \<Rightarrow> unit io" where
  "handleLogEvent this w payload =
     bindM (get_property payload ''userId'') (\<lambda>userId.
     bindM (get_property payload ''url'') (\<lambda>url.
     bindM (logger_log (''Caught log event! User: '' @ template userId @ '', URL: '' @ template url)) (\<lambda>_.
     bindM (try_catch
              (bindM (clsService_run
                        (bindM (get_property payload ''userId'') (\<lambda>userId.
                         bindM (clsService_set ''userId'' userId) (\<lambda>_.
                         bindM (logRepository_create payload) (\<lambda>newLog.
                         logRepository_save w newLog))))) (\<lambda>_.
               logger_log ''Saved to MariaDB''))
              (\<lambda>e. logger_error ''Failed to save activity log to MariaDB'' e)) (\<lambda>_.
     try_catch
       (case elasticsearchService this of
          None \<Rightarrow> returnM ()
        | Some es \<Rightarrow>
            bindM (spread payload) (\<lambda>props.
            bindM (new_Date_toISOString w) (\<lambda>timestamp.
            bindM (new_object (props(''timestamp'' \<mapsto> JString timestamp))) (\<lambda>body.
            bindM (elasticsearchService_index w es ''activity-logs'' body) (\<lambda>_.
            logger_log ''Saved to Elasticsearch'')))))
       (\<lambda>e. logger_warn ''Elasticsearch not available, skipping ES save'')))))"

section \<open>Vocabulary of the properties\<close>

text \<open>The two \<^verbatim>\<open>try\<close> blocks of the handler, named so that each can be studied alone.\<close>

definition relational_block :: "world \<Rightarrow> ref option \<Rightarrow> unit io" where
  "relational_block w payload =
     try_catch
       (bindM (clsService_run
                 (bindM (get_property payload ''userId'') (\<lambda>userId.
                  bindM (clsService_set ''userId'' userId) (\<lambda>_.
                  bindM (logRepository_create payload) (\<lambda>newLog.
                  logRepository_save w newLog))))) (\<lambda>_.
        logger_log ''Saved to MariaDB''))
       (\<lambda>e. logger_error ''Failed to save activity log to MariaDB'' e)"

definition search_block :: "listener \<Rightarrow> world \<Rightarrow> ref option \<Rightarrow> unit io" where
  "search_block this w payload =
     try_catch
       (case elasticsearchService this of
          None \<Rightarrow> returnM ()
        | Some es \<Rightarrow>
            bindM (spread payload) (\<lambda>props.
            bindM (new_Date_toISOString w) (\<lambda>timestamp.
            bindM (new_object (props(''timestamp'' \<mapsto> JString timestamp))) (\<lambda>body.
            bindM (elasticsearchService_index w es ''activity-logs'' body) (\<lambda>_.
            logger_log ''Saved to Elasticsearch'')))))
       (\<lambda>e. logger_warn ''Elasticsearch not available, skipping ES save'')"

text \<open>The receipt line the first statement logs for a payload object.\<close>

definition receipt :: "js_object \<Rightarrow> event" where
  "receipt p =
     Logged LOG (''Caught log event! User: '' @ template (p ''userId'') @ '', URL: '' @
                 template (p ''url'')) None"

definition logged_at :: "level \<Rightarrow> event \<Rightarrow> bool" where
  "logged_at l ev = (case ev of Logged l' _ _ \<Rightarrow> l' = l | _ \<Rightarrow> False)"

definition is_logged :: "event \<Rightarrow> bool" where
  "is_logged ev = (case ev of Logged _ _ _ \<Rightarrow> True | _ \<Rightarrow> False)"

text \<open>The events of the two sink writes: a call starting and the call settling.\<close>

definition is_write :: "event \<Rightarrow> bool" where
  "is_write ev =
     (case ev of SaveStarted _ \<Rightarrow> True | SaveFinished _ \<Rightarrow> True
               | IndexStarted _ _ \<Rightarrow> True | IndexFinished _ \<Rightarrow> True | _ \<Rightarrow> False)"

text \<open>The calls that write to a sink: a save of the repository, an index call.\<close>

definition is_save_call :: "event \<Rightarrow> bool" where
  "is_save_call ev = (case ev of SaveStarted _ \<Rightarrow> True | _ \<Rightarrow> False)"

definition is_index_call :: "event \<Rightarrow> bool" where
  "is_index_call ev = (case ev of IndexStarted _ _ \<Rightarrow> True | _ \<Rightarrow> False)"

text \<open>
  The shape \<^verbatim>\<open>YYYY-MM-DDTHH:mm:ss.sssZ\<close> of ISO 8601 in UTC: in a pattern,
  \<^verbatim>\<open>d\<close> stands for a decimal digit and every other character for itself.
\<close>

definition is_digit :: "char \<Rightarrow> bool" where
  "is_digit c = (c \<in> set ''0123456789'')"

fun matches :: "string \<Rightarrow> string \<Rightarrow> bool" where
  "matches [] [] = True"
| "matches (p # ps) (c # cs) =
     ((if p = CHR ''d'' then is_digit c else c = p) \<and> matches ps cs)"
| "matches _ _ = False"

definition iso8601 :: "string \<Rightarrow> bool" where
  "iso8601 ts = matches ''dddd-dd-ddTdd:dd:dd.dddZ'' ts"

text \<open>The ranges of the UTC fields of a date of the four-digit years.\<close>

definition valid_date :: "date \<Rightarrow> bool" where
  "valid_date d =
     (year d < 10000 \<and> 1 \<le> month d \<and> month d \<le> 12 \<and> 1 \<le> day d \<and> day d \<le> 31 \<and>
      hours d < 24 \<and> minutes d < 60 \<and> seconds d < 60 \<and> milliseconds d < 1000)"

subsection \<open>Inputs for the examples\<close>

text \<open>The payload of the scenarios of the specification, alone in the heap.\<close>

definition example_payload :: js_object where
  "example_payload =
     [''userId'' \<mapsto> JString ''user-123'', ''url'' \<mapsto> JString ''/api/endpoint'',
      ''processType'' \<mapsto> JString ''GET'', ''responseTimeMs'' \<mapsto> JNumber 42]"

definition example_state :: state where
  "example_state =
     \<lparr>heap = [example_payload], cls = None, rows = [], next_id = 1, documents = [], trace = []\<rparr>"

definition example_date :: date where
  "example_date =
     \<lparr>year = 2024, month = 3, day = 9, hours = 7, minutes = 5, seconds = 1, milliseconds = 42\<rparr>"

definition accept :: "'a \<Rightarrow> js_error option" where
  "accept x = None"

definition refuse :: "'a \<Rightarrow> js_error option" where
  "refuse x = Some (Rejected ''connect ECONNREFUSED'')"

definition healthy :: world where
  "healthy = \<lparr>save_fault = accept, index_fault = accept, db_now = ''2024-03-09 15:05:02'',
              clock = example_date\<rparr>"

definition relational_down :: world where
  "relational_down = \<lparr>save_fault = refuse, index_fault = accept, db_now = ''2024-03-09 15:05:02'',
                      clock = example_date\<rparr>"

definition search_down :: world where
  "search_down = \<lparr>save_fault = accept, index_fault = refuse, db_now = ''2024-03-09 15:05:02'',
                  clock = example_date\<rparr>"

text \<open>A configuration without \<^verbatim>\<open>ELASTICSEARCH_NODE\<close>, and one with it.\<close>

definition no_configuration :: "string \<rightharpoonup> string" where
  "no_configuration = Map.empty"

definition example_configuration :: "string \<rightharpoonup> string" where
  "example_configuration = [''ELASTICSEARCH_NODE'' \<mapsto> ''http://elasticsearch-service:9200'']"

text \<open>A listener constructed by hand without a search service.\<close>

definition bare_listener :: listener where
  "bare_listener = \<lparr>elasticsearchService = None\<rparr>"





section \<open>The handler, block by block\<close>

lemma deref_alloc [simp]:
  "deref (h @ [x]) r = (if r = length h then x else deref h r)"
  by (simp add: deref_def nth_append)

lemma deref_update [simp]:
  "deref (h[e := x]) r = (if r = e \<and> e < length h then x else deref h r)"
  by (simp add: deref_def)

lemma handleLogEvent_blocks:
  "handleLogEvent this w payload =
     bindM (get_property payload ''userId'') (\<lambda>userId.
     bindM (get_property payload ''url'') (\<lambda>url.
     bindM (logger_log (''Caught log event! User: '' @ template userId @ '', URL: '' @ template url)) (\<lambda>_.
     bindM (relational_block w payload) (\<lambda>_. search_block this w payload))))"
  by (simp add: handleLogEvent_def relational_block_def search_block_def)

lemma save_rejected:
  "save_fault w (deref (heap s) e) = Some err \<Longrightarrow>
   logRepository_save w e s = (Inl err, s\<lparr>trace := trace s @ [SaveStarted e, SaveFinished False]\<rparr>)"
  by (simp add: logRepository_save_def Let_def)

lemma save_accepted:
  "save_fault w (deref (heap s) e) = None \<Longrightarrow>
   logRepository_save w e s =
     (Inr (), s\<lparr>heap := (heap s)[e := fst (upsert (db_now w) (deref (heap s) e) (rows s) (next_id s))],
               rows := fst (snd (upsert (db_now w) (deref (heap s) e) (rows s) (next_id s))),
               next_id := snd (snd (upsert (db_now w) (deref (heap s) e) (rows s) (next_id s))),
               trace := trace s @ [SaveStarted e, SaveFinished True]\<rparr>)"
  by (simp add: logRepository_save_def Let_def split: prod.split)

lemma callback_eq:
  "cls s = Some st \<Longrightarrow>
   bindM (get_property (Some r) ''userId'') (\<lambda>userId.
   bindM (clsService_set ''userId'' userId) (\<lambda>_.
   bindM (logRepository_create (Some r)) (\<lambda>newLog.
   logRepository_save w newLog))) s =
   logRepository_save w (length (heap s))
     (s\<lparr>cls := Some (st(''userId'' := deref (heap s) r ''userId'')),
        trace := trace s @ [ScopeSet ''userId'' (deref (heap s) r ''userId'')],
        heap := heap s @ [deref (heap s) r |` entity_columns]\<rparr>)"
  by (simp add: bindM_def get_property_def clsService_set_def logRepository_create_def
      new_object_def)

lemma run_callback:
  "clsService_run
     (bindM (get_property (Some r) ''userId'') (\<lambda>userId.
      bindM (clsService_set ''userId'' userId) (\<lambda>_.
      bindM (logRepository_create (Some r)) (\<lambda>newLog.
      logRepository_save w newLog)))) s =
   (case logRepository_save w (length (heap s))
           (s\<lparr>cls := Some (Map.empty(''userId'' := deref (heap s) r ''userId'')),
              trace := trace s @ [ScopeOpened, ScopeSet ''userId'' (deref (heap s) r ''userId'')],
              heap := heap s @ [deref (heap s) r |` entity_columns]\<rparr>) of
      (res, s') \<Rightarrow> (res, s'\<lparr>cls := cls s, trace := trace s' @ [ScopeClosed]\<rparr>))"
  by (simp add: clsService_run_def callback_eq)

lemma relational_block_rejected:
  assumes "save_fault w (deref (heap s) r |` entity_columns) = Some err"
  shows "relational_block w (Some r) s =
     (Inr (), s\<lparr>heap := heap s @ [deref (heap s) r |` entity_columns],
               trace := trace s @
                 [ScopeOpened, ScopeSet ''userId'' (deref (heap s) r ''userId''),
                  SaveStarted (length (heap s)), SaveFinished False, ScopeClosed,
                  Logged ERROR ''Failed to save activity log to MariaDB'' (Some err)]\<rparr>)"
  using assms
  by (simp add: relational_block_def try_catch_def bindM_def run_callback
      save_rejected logger_error_def emit_def)

lemma relational_block_accepted:
  assumes "save_fault w (deref (heap s) r |` entity_columns) = None"
  shows "relational_block w (Some r) s =
     (Inr (), s\<lparr>heap := heap s @ [fst (upsert (db_now w) (deref (heap s) r |` entity_columns) (rows s) (next_id s))],
               rows := fst (snd (upsert (db_now w) (deref (heap s) r |` entity_columns) (rows s) (next_id s))),
               next_id := snd (snd (upsert (db_now w) (deref (heap s) r |` entity_columns) (rows s) (next_id s))),
               trace := trace s @
                 [ScopeOpened, ScopeSet ''userId'' (deref (heap s) r ''userId''),
                  SaveStarted (length (heap s)), SaveFinished True, ScopeClosed,
                  Logged LOG ''Saved to MariaDB'' None]\<rparr>)"
  using assms
  by (simp add: relational_block_def try_catch_def bindM_def run_callback
      save_accepted logger_log_def emit_def)

lemma search_block_absent:
  "elasticsearchService this = None \<Longrightarrow> search_block this w payload s = (Inr (), s)"
  by (simp add: search_block_def try_catch_def returnM_def)

lemma search_block_rejected:
  assumes "elasticsearchService this = Some es" "index_fault w (node es) = Some err"
  shows "search_block this w (Some r) s =
     (Inr (), s\<lparr>heap := heap s @ [(deref (heap s) r)(''timestamp'' \<mapsto> JString (toISOString (clock w)))],
               trace := trace s @
                 [IndexStarted ''activity-logs'' (length (heap s)), IndexFinished False,
                  Logged WARN ''Elasticsearch not available, skipping ES save'' None]\<rparr>)"
  using assms
  by (simp add: search_block_def try_catch_def bindM_def spread_def new_Date_toISOString_def
      new_object_def elasticsearchService_index_def Let_def logger_warn_def emit_def)

lemma search_block_accepted:
  assumes "elasticsearchService this = Some es" "index_fault w (node es) = None"
  shows "search_block this w (Some r) s =
     (Inr (), s\<lparr>heap := heap s @ [(deref (heap s) r)(''timestamp'' \<mapsto> JString (toISOString (clock w)))],
               documents := documents s @
                 [(''activity-logs'', (deref (heap s) r)(''timestamp'' \<mapsto> JString (toISOString (clock w))))],
               trace := trace s @
                 [IndexStarted ''activity-logs'' (length (heap s)), IndexFinished True,
                  Logged LOG ''Saved to Elasticsearch'' None]\<rparr>)"
  using assms
  by (simp add: search_block_def try_catch_def bindM_def spread_def new_Date_toISOString_def
      new_object_def elasticsearchService_index_def Let_def logger_log_def emit_def)

lemma relational_block_returns: "fst (relational_block w (Some r) s) = Inr ()"
  by (cases "save_fault w (deref (heap s) r |` entity_columns)")
     (simp_all add: relational_block_accepted relational_block_rejected)

lemma search_block_returns: "fst (search_block this w (Some r) s) = Inr ()"
proof (cases "elasticsearchService this")
  case None
  then show ?thesis by (simp add: search_block_absent)
next
  case (Some es)
  then show ?thesis
    by (cases "index_fault w (node es)")
       (simp_all add: search_block_accepted search_block_rejected)
qed

text \<open>
  For a payload that is not null the handler is its receipt line, then the relational
  block, then the search block, and the relational block hands no error on.
\<close>

lemma handleLogEvent_Some:
  "handleLogEvent this w (Some r) s =
     search_block this w (Some r)
       (snd (relational_block w (Some r) (s\<lparr>trace := trace s @ [receipt (deref (heap s) r)]\<rparr>)))"
proof -
  obtain res s1 where rb:
    "relational_block w (Some r) (s\<lparr>trace := trace s @ [receipt (deref (heap s) r)]\<rparr>) = (res, s1)"
    by (cases "relational_block w (Some r) (s\<lparr>trace := trace s @ [receipt (deref (heap s) r)]\<rparr>)")
  with relational_block_returns[of w r "s\<lparr>trace := trace s @ [receipt (deref (heap s) r)]\<rparr>"]
  have "res = Inr ()" by simp
  with rb show ?thesis
    by (simp add: handleLogEvent_blocks bindM_def get_property_def logger_log_def emit_def
        receipt_def)
qed

text \<open>Everything the collaborators see of one run, whatever the two sinks do.\<close>

lemma handleLogEvent_trace:
  "trace (snd (handleLogEvent this w (Some r) s)) =
     trace s @
     [receipt (deref (heap s) r), ScopeOpened, ScopeSet ''userId'' (deref (heap s) r ''userId''),
      SaveStarted (length (heap s)),
      SaveFinished (save_fault w (deref (heap s) r |` entity_columns) = None), ScopeClosed,
      (case save_fault w (deref (heap s) r |` entity_columns) of
         None \<Rightarrow> Logged LOG ''Saved to MariaDB'' None
       | Some err \<Rightarrow> Logged ERROR ''Failed to save activity log to MariaDB'' (Some err))] @
     (case elasticsearchService this of
        None \<Rightarrow> []
      | Some es \<Rightarrow>
          [IndexStarted ''activity-logs'' (Suc (length (heap s))),
           IndexFinished (index_fault w (node es) = None),
           (case index_fault w (node es) of
              None \<Rightarrow> Logged LOG ''Saved to Elasticsearch'' None
            | Some e \<Rightarrow> Logged WARN ''Elasticsearch not available, skipping ES save'' None)])"
  apply (cases "save_fault w (deref (heap s) r |` entity_columns)";
         cases "elasticsearchService this")
     apply (simp_all add: handleLogEvent_Some search_block_absent relational_block_accepted
      relational_block_rejected)
  subgoal for es
    by (cases "index_fault w (node es)")
       (simp_all add: search_block_accepted search_block_rejected)
  subgoal for err es
    by (cases "index_fault w (node es)")
       (simp_all add: search_block_accepted search_block_rejected)
  done

text \<open>What one run leaves in each part of the state.\<close>

lemma handleLogEvent_cls: "cls (snd (handleLogEvent this w (Some r) s)) = cls s"
  apply (cases "save_fault w (deref (heap s) r |` entity_columns)";
         cases "elasticsearchService this")
     apply (simp_all add: handleLogEvent_Some search_block_absent relational_block_accepted
      relational_block_rejected)
  subgoal for es
    by (cases "index_fault w (node es)")
       (simp_all add: search_block_accepted search_block_rejected)
  subgoal for err es
    by (cases "index_fault w (node es)")
       (simp_all add: search_block_accepted search_block_rejected)
  done

lemma search_block_rows:
  "rows (snd (search_block this w (Some r) s)) = rows s \<and>
   next_id (snd (search_block this w (Some r) s)) = next_id s"
proof (cases "elasticsearchService this")
  case None
  then show ?thesis by (simp add: search_block_absent)
next
  case (Some es)
  then show ?thesis
    by (cases "index_fault w (node es)")
       (simp_all add: search_block_accepted search_block_rejected)
qed

lemma handleLogEvent_rows:
  "rows (snd (handleLogEvent this w (Some r) s)) =
     (case save_fault w (deref (heap s) r |` entity_columns) of
        Some err \<Rightarrow> rows s
      | None \<Rightarrow> fst (snd (upsert (db_now w) (deref (heap s) r |` entity_columns) (rows s) (next_id s))))"
  by (cases "save_fault w (deref (heap s) r |` entity_columns)")
     (simp_all add: handleLogEvent_Some search_block_rows relational_block_accepted
      relational_block_rejected)

lemma handleLogEvent_next_id:
  "next_id (snd (handleLogEvent this w (Some r) s)) =
     (case save_fault w (deref (heap s) r |` entity_columns) of
        Some err \<Rightarrow> next_id s
      | None \<Rightarrow> snd (snd (upsert (db_now w) (deref (heap s) r |` entity_columns) (rows s) (next_id s))))"
  by (cases "save_fault w (deref (heap s) r |` entity_columns)")
     (simp_all add: handleLogEvent_Some search_block_rows relational_block_accepted
      relational_block_rejected)

lemma relational_block_heap:
  "\<exists>entity. heap (snd (relational_block w (Some r) s)) = heap s @ [entity]"
  by (cases "save_fault w (deref (heap s) r |` entity_columns)")
     (simp_all add: relational_block_accepted relational_block_rejected)

lemma relational_block_documents:
  "documents (snd (relational_block w (Some r) s)) = documents s"
  by (cases "save_fault w (deref (heap s) r |` entity_columns)")
     (simp_all add: relational_block_accepted relational_block_rejected)

lemma search_block_heap:
  "heap (snd (search_block this w (Some r) s)) =
     heap s @ (case elasticsearchService this of
                 None \<Rightarrow> []
               | Some es \<Rightarrow> [(deref (heap s) r)(''timestamp'' \<mapsto> JString (toISOString (clock w)))])"
proof (cases "elasticsearchService this")
  case None
  then show ?thesis by (simp add: search_block_absent)
next
  case (Some es)
  then show ?thesis
    by (cases "index_fault w (node es)")
       (simp_all add: search_block_accepted search_block_rejected)
qed

lemma search_block_documents:
  "documents (snd (search_block this w (Some r) s)) =
     documents s @
     (case elasticsearchService this of
        None \<Rightarrow> []
      | Some es \<Rightarrow>
          (case index_fault w (node es) of
             None \<Rightarrow> [(''activity-logs'',
                       (deref (heap s) r)(''timestamp'' \<mapsto> JString (toISOString (clock w))))]
           | Some err \<Rightarrow> []))"
proof (cases "elasticsearchService this")
  case None
  then show ?thesis by (simp add: search_block_absent)
next
  case (Some es)
  then show ?thesis
    by (cases "index_fault w (node es)")
       (simp_all add: search_block_accepted search_block_rejected)
qed

lemma handleLogEvent_heap:
  "\<exists>entity. heap (snd (handleLogEvent this w (Some r) s)) =
     heap s @ entity #
       (case elasticsearchService this of
          None \<Rightarrow> []
        | Some es \<Rightarrow>
            [(deref (heap s @ [entity]) r)(''timestamp'' \<mapsto> JString (toISOString (clock w)))])"
proof -
  obtain entity where
    "heap (snd (relational_block w (Some r) (s\<lparr>trace := trace s @ [receipt (deref (heap s) r)]\<rparr>))) =
       heap s @ [entity]"
    using relational_block_heap[of w r "s\<lparr>trace := trace s @ [receipt (deref (heap s) r)]\<rparr>"]
    by auto
  then show ?thesis
    by (simp add: handleLogEvent_Some search_block_heap split: option.split)
qed

lemma handleLogEvent_documents:
  assumes "r < length (heap s)"
  shows "documents (snd (handleLogEvent this w (Some r) s)) =
     documents s @
     (case elasticsearchService this of
        None \<Rightarrow> []
      | Some es \<Rightarrow>
          (case index_fault w (node es) of
             None \<Rightarrow> [(''activity-logs'',
                       (deref (heap s) r)(''timestamp'' \<mapsto> JString (toISOString (clock w))))]
           | Some err \<Rightarrow> []))"
proof -
  obtain entity where
    "heap (snd (relational_block w (Some r) (s\<lparr>trace := trace s @ [receipt (deref (heap s) r)]\<rparr>))) =
       heap s @ [entity]"
    using relational_block_heap[of w r "s\<lparr>trace := trace s @ [receipt (deref (heap s) r)]\<rparr>"]
    by auto
  with assms show ?thesis
    by (simp add: handleLogEvent_Some search_block_documents relational_block_documents
        split: option.split)
qed


subsection \<open>The printed date\<close>

lemma digit_decimal: "n < 10 \<Longrightarrow> is_digit (digit n)"
  unfolding digit_def is_digit_def by (rule nth_mem) simp

lemma toISOString_iso8601: "valid_date d \<Longrightarrow> iso8601 (toISOString d)"
  by (auto simp add: iso8601_def toISOString_def valid_date_def pad2_def pad3_def pad4_def
      intro!: digit_decimal)

lemma handleLogEvent_result: "fst (handleLogEvent this w (Some r) s) = Inr ()"
  by (simp add: handleLogEvent_Some search_block_returns)

lemma handleLogEvent_search_untouched:
  "documents (snd (handleLogEvent this w (Some r) s)) = documents s @
     (case elasticsearchService this of
        None \<Rightarrow> []
      | Some es \<Rightarrow>
          (case index_fault w (node es) of
             None \<Rightarrow> [(''activity-logs'',
                       (deref (heap (snd (relational_block w (Some r) (s\<lparr>trace := trace s @ [receipt (deref (heap s) r)]\<rparr>)))) r)
                         (''timestamp'' \<mapsto> JString (toISOString (clock w))))]
           | Some err \<Rightarrow> []))"
  by (simp add: handleLogEvent_Some search_block_documents relational_block_documents)





section \<open>The claims\<close>

text \<open>
  C1. For every payload that is not null, \<^verbatim>\<open>handleLogEvent\<close> returns normally: its
  result is a value, never an error, whether the listener has a search service or not,
  whatever the relational store and the search backend answer, and from every state.
\<close>

theorem handleLogEvent_returns_normally:
  "fst (handleLogEvent this w (Some r) s) = Inr ()"
  by (simp add: handleLogEvent_Some search_block_returns)

text \<open>
  C9. For a null or undefined payload \<^verbatim>\<open>handleLogEvent\<close> raises a TypeError to its
  caller: the receipt statement reads \<^verbatim>\<open>payload.userId\<close> before either
  \<^verbatim>\<open>try\<close> block is entered, so nothing is logged and no sink is called; the state
  is the one the handler was called in.
\<close>

theorem handleLogEvent_null_payload_raises:
  "handleLogEvent this w None s =
     (Inl (TypeError ''Cannot read properties of undefined (reading userId)''), s)"
  by (simp add: handleLogEvent_def bindM_def get_property_def)

text \<open>
  C3. When the relational store rejects the write, with whatever error, the handler still
  returns normally: the error is caught by the first \<^verbatim>\<open>try\<close> block, which logs it
  at error severity right after the identity scope has closed; no row is written; and when
  the listener has a search service the indexing call is started after that log line.
\<close>

theorem relational_failure_is_contained:
  assumes "save_fault w (deref (heap s) r |` entity_columns) = Some err"
    and "handleLogEvent this w (Some r) s = (res, s')"
  shows "res = Inr () \<and> rows s' = rows s \<and>
     trace s' =
       trace s @
       [receipt (deref (heap s) r), ScopeOpened, ScopeSet ''userId'' (deref (heap s) r ''userId''),
        SaveStarted (length (heap s)), SaveFinished False, ScopeClosed,
        Logged ERROR ''Failed to save activity log to MariaDB'' (Some err)] @
       (case elasticsearchService this of
          None \<Rightarrow> []
        | Some es \<Rightarrow>
            [IndexStarted ''activity-logs'' (Suc (length (heap s))),
             IndexFinished (index_fault w (node es) = None),
             (case index_fault w (node es) of
                None \<Rightarrow> Logged LOG ''Saved to Elasticsearch'' None
              | Some e \<Rightarrow> Logged WARN ''Elasticsearch not available, skipping ES save'' None)])"
proof -
  have "res = fst (handleLogEvent this w (Some r) s)" "s' = snd (handleLogEvent this w (Some r) s)"
    using assms(2) by simp_all
  with assms(1) show ?thesis
    by (simp add: handleLogEvent_result handleLogEvent_rows handleLogEvent_trace)
qed

text \<open>Scenario 2 of the specification: the relational store is down.\<close>

theorem relational_failure_is_contained_witness:
  "save_fault relational_down (deref (heap example_state) 0 |` entity_columns) =
     Some (Rejected ''connect ECONNREFUSED'') \<and>
   fst (handleLogEvent (ActivityLogListener example_configuration) relational_down (Some 0) example_state) = Inr () \<and>
   rows (snd (handleLogEvent (ActivityLogListener example_configuration) relational_down (Some 0) example_state)) = [] \<and>
   trace (snd (handleLogEvent (ActivityLogListener example_configuration) relational_down (Some 0) example_state)) =
     [Logged LOG ''Caught log event! User: user-123, URL: /api/endpoint'' None,
      ScopeOpened, ScopeSet ''userId'' (Some (JString ''user-123'')),
      SaveStarted 1, SaveFinished False, ScopeClosed,
      Logged ERROR ''Failed to save activity log to MariaDB'' (Some (Rejected ''connect ECONNREFUSED'')),
      IndexStarted ''activity-logs'' 2, IndexFinished True,
      Logged LOG ''Saved to Elasticsearch'' None]"
  using relational_failure_is_contained
    [of relational_down example_state 0 "Rejected ''connect ECONNREFUSED''"
        "ActivityLogListener example_configuration"
        "fst (handleLogEvent (ActivityLogListener example_configuration) relational_down (Some 0) example_state)"
        "snd (handleLogEvent (ActivityLogListener example_configuration) relational_down (Some 0) example_state)"]
  by (simp add: example_state_def example_payload_def relational_down_def accept_def refuse_def
      ActivityLogListener_def useFactory_def example_configuration_def receipt_def deref_def
      entity_columns_def)

text \<open>
  C4. With a search service present, when the indexing call is rejected, with whatever
  error, the handler returns normally; the run logs exactly one line at warning severity,
  which is not the error severity of a relational failure; no document is added; and the
  rows and the next generated key of the relational store are those of a run from the same
  state with any other search service, search backend answer and clock.
\<close>

theorem search_failure_is_contained:
  assumes "elasticsearchService this = Some es"
    and "index_fault w (node es) = Some err"
    and "handleLogEvent this w (Some r) s = (res, s')"
  shows "res = Inr () \<and>
     filter (logged_at WARN) (drop (length (trace s)) (trace s')) =
       [Logged WARN ''Elasticsearch not available, skipping ES save'' None] \<and>
     WARN \<noteq> ERROR \<and>
     documents s' = documents s \<and>
     rows s' = rows (snd (handleLogEvent this' (w\<lparr>index_fault := f, clock := c\<rparr>) (Some r) s)) \<and>
     next_id s' = next_id (snd (handleLogEvent this' (w\<lparr>index_fault := f, clock := c\<rparr>) (Some r) s))"
proof -
  have run: "res = fst (handleLogEvent this w (Some r) s)" "s' = snd (handleLogEvent this w (Some r) s)"
    using assms(3) by simp_all
  have warn: "filter (logged_at WARN) (drop (length (trace s)) (trace s')) =
       [Logged WARN ''Elasticsearch not available, skipping ES save'' None]"
    using assms(1,2) unfolding run
    by (simp add: handleLogEvent_trace logged_at_def receipt_def split: option.split)
  have docs: "documents s' = documents s"
    using assms(1,2) unfolding run by (simp add: handleLogEvent_search_untouched)
  show ?thesis
    using warn docs unfolding run
    by (simp add: handleLogEvent_result handleLogEvent_rows handleLogEvent_next_id
        split: option.split)
qed

text \<open>The search backend is down while the relational store is healthy.\<close>

theorem search_failure_is_contained_witness:
  "elasticsearchService (ActivityLogListener example_configuration) =
     Some \<lparr>node = ''http://elasticsearch-service:9200''\<rparr> \<and>
   index_fault search_down ''http://elasticsearch-service:9200'' = Some (Rejected ''connect ECONNREFUSED'') \<and>
   fst (handleLogEvent (ActivityLogListener example_configuration) search_down (Some 0) example_state) = Inr () \<and>
   filter (logged_at WARN)
     (trace (snd (handleLogEvent (ActivityLogListener example_configuration) search_down (Some 0) example_state))) =
     [Logged WARN ''Elasticsearch not available, skipping ES save'' None] \<and>
   documents (snd (handleLogEvent (ActivityLogListener example_configuration) search_down (Some 0) example_state)) = [] \<and>
   rows (snd (handleLogEvent (ActivityLogListener example_configuration) search_down (Some 0) example_state)) =
     rows (snd (handleLogEvent bare_listener healthy (Some 0) example_state))"
proof -
  have h: "healthy = search_down\<lparr>index_fault := accept, clock := example_date\<rparr>"
    by (simp add: healthy_def search_down_def)
  show ?thesis
    using search_failure_is_contained
      [where this = "ActivityLogListener example_configuration"
         and es = "\<lparr>node = ''http://elasticsearch-service:9200''\<rparr>"
         and w = search_down and err = "Rejected ''connect ECONNREFUSED''" and r = 0
         and s = example_state
         and res = "fst (handleLogEvent (ActivityLogListener example_configuration) search_down (Some 0) example_state)"
         and s' = "snd (handleLogEvent (ActivityLogListener example_configuration) search_down (Some 0) example_state)"
         and this' = bare_listener and f = accept and c = example_date]
    unfolding h
    by (simp add: ActivityLogListener_def useFactory_def example_configuration_def search_down_def
        refuse_def example_state_def)
qed

text \<open>
  C5. In every run on a payload that is not null, leaving the log lines aside, the events
  are: the identity scope opens, the payload's \<^verbatim>\<open>userId\<close> is put in it, the
  relational write starts, the write settles (accepted or rejected), the scope closes, and
  only then the indexing call, if any, starts. After the run the CLS context is the one
  the handler was called in.
\<close>

theorem identity_scope_brackets_relational_write:
  assumes "handleLogEvent this w (Some r) s = (res, s')"
  shows "filter (\<lambda>ev. \<not> is_logged ev) (drop (length (trace s)) (trace s')) =
       [ScopeOpened, ScopeSet ''userId'' (deref (heap s) r ''userId''),
        SaveStarted (length (heap s)),
        SaveFinished (save_fault w (deref (heap s) r |` entity_columns) = None),
        ScopeClosed] @
       (case elasticsearchService this of
          None \<Rightarrow> []
        | Some es \<Rightarrow>
            [IndexStarted ''activity-logs'' (Suc (length (heap s))),
             IndexFinished (index_fault w (node es) = None)]) \<and>
     cls s' = cls s"
proof -
  have run: "s' = snd (handleLogEvent this w (Some r) s)"
    using assms by simp
  show ?thesis
    unfolding run
    by (simp add: handleLogEvent_trace handleLogEvent_cls is_logged_def receipt_def
        split: option.split)
qed

text \<open>The scope closes although the relational write was rejected.\<close>

theorem identity_scope_brackets_relational_write_witness:
  "filter (\<lambda>ev. \<not> is_logged ev)
     (trace (snd (handleLogEvent (ActivityLogListener example_configuration) relational_down (Some 0) example_state))) =
     [ScopeOpened, ScopeSet ''userId'' (Some (JString ''user-123'')), SaveStarted 1,
      SaveFinished False, ScopeClosed, IndexStarted ''activity-logs'' 2, IndexFinished True] \<and>
   cls (snd (handleLogEvent (ActivityLogListener example_configuration) relational_down (Some 0) example_state)) = None"
  using identity_scope_brackets_relational_write
    [of "ActivityLogListener example_configuration" relational_down 0 example_state
        "fst (handleLogEvent (ActivityLogListener example_configuration) relational_down (Some 0) example_state)"
        "snd (handleLogEvent (ActivityLogListener example_configuration) relational_down (Some 0) example_state)"]
  by (simp add: example_state_def example_payload_def relational_down_def accept_def refuse_def
      ActivityLogListener_def useFactory_def example_configuration_def receipt_def deref_def
      entity_columns_def)

text \<open>
  C6. In every run on a payload that is not null the events of the two sink writes are, in
  this order: the relational write starts, the relational write settles, and, when the
  listener has a search service, the indexing call starts and settles. The indexing call
  never starts before the relational write has settled.
\<close>

theorem sink_writes_are_sequential:
  assumes "handleLogEvent this w (Some r) s = (res, s')"
  shows "filter is_write (drop (length (trace s)) (trace s')) =
       [SaveStarted (length (heap s)),
        SaveFinished (save_fault w (deref (heap s) r |` entity_columns) = None)] @
       (case elasticsearchService this of
          None \<Rightarrow> []
        | Some es \<Rightarrow>
            [IndexStarted ''activity-logs'' (Suc (length (heap s))),
             IndexFinished (index_fault w (node es) = None)])"
proof -
  have run: "s' = snd (handleLogEvent this w (Some r) s)"
    using assms by simp
  show ?thesis
    unfolding run
    by (simp add: handleLogEvent_trace is_write_def receipt_def split: option.split)
qed

text \<open>Scenario 1 of the specification: both stores healthy.\<close>

theorem sink_writes_are_sequential_witness:
  "filter is_write
     (trace (snd (handleLogEvent (ActivityLogListener example_configuration) healthy (Some 0) example_state))) =
     [SaveStarted 1, SaveFinished True, IndexStarted ''activity-logs'' 2, IndexFinished True]"
  using sink_writes_are_sequential
    [of "ActivityLogListener example_configuration" healthy 0 example_state
        "fst (handleLogEvent (ActivityLogListener example_configuration) healthy (Some 0) example_state)"
        "snd (handleLogEvent (ActivityLogListener example_configuration) healthy (Some 0) example_state)"]
  by (simp add: example_state_def example_payload_def healthy_def accept_def
      ActivityLogListener_def useFactory_def example_configuration_def deref_def
      entity_columns_def)

text \<open>
  C10. The handler does not mutate the payload object: after the run the object the
  payload reference denotes, and every other object that existed at delivery, is what it
  was. The run only allocates: the entity it saves and the document body it indexes are
  the objects at the first and the second position after the heap at delivery.
\<close>

theorem payload_is_not_mutated:
  assumes "r < length (heap s)"
    and "handleLogEvent this w (Some r) s = (res, s')"
  shows "heap s' ! r = heap s ! r \<and> take (length (heap s)) (heap s') = heap s \<and>
     length (heap s) < length (heap s') \<and>
     filter is_save_call (drop (length (trace s)) (trace s')) = [SaveStarted (length (heap s))] \<and>
     filter is_index_call (drop (length (trace s)) (trace s')) =
       (case elasticsearchService this of
          None \<Rightarrow> []
        | Some es \<Rightarrow> [IndexStarted ''activity-logs'' (Suc (length (heap s)))])"
proof -
  have run: "s' = snd (handleLogEvent this w (Some r) s)"
    using assms(2) by simp
  have calls:
    "filter is_save_call (drop (length (trace s)) (trace s')) = [SaveStarted (length (heap s))] \<and>
     filter is_index_call (drop (length (trace s)) (trace s')) =
       (case elasticsearchService this of
          None \<Rightarrow> []
        | Some es \<Rightarrow> [IndexStarted ''activity-logs'' (Suc (length (heap s)))])"
    unfolding run
    by (simp add: handleLogEvent_trace is_save_call_def is_index_call_def receipt_def
        split: option.split)
  obtain entity where
    "heap s' = heap s @ entity #
       (case elasticsearchService this of
          None \<Rightarrow> []
        | Some es \<Rightarrow>
            [(deref (heap s @ [entity]) r)(''timestamp'' \<mapsto> JString (toISOString (clock w)))])"
    using handleLogEvent_heap[of this w r s] unfolding run by blast
  with assms(1) calls show ?thesis
    by (simp add: nth_append)
qed

text \<open>The payload of the scenarios after a run with both stores healthy.\<close>

theorem payload_is_not_mutated_witness:
  "(0::nat) < length (heap example_state) \<and>
   heap (snd (handleLogEvent (ActivityLogListener example_configuration) healthy (Some 0) example_state)) ! 0 =
     example_payload \<and>
   take 1 (heap (snd (handleLogEvent (ActivityLogListener example_configuration) healthy (Some 0) example_state))) =
     [example_payload]"
  using payload_is_not_mutated
    [of 0 example_state "ActivityLogListener example_configuration" healthy
        "fst (handleLogEvent (ActivityLogListener example_configuration) healthy (Some 0) example_state)"
        "snd (handleLogEvent (ActivityLogListener example_configuration) healthy (Some 0) example_state)"]
  by (simp add: example_state_def)

text \<open>
  C7. When a record is indexed, the document added to the index \<^verbatim>\<open>activity-logs\<close>
  has the payload's properties with their values and the property
  \<^verbatim>\<open>timestamp\<close>, whose value is the process clock at the indexing call printed by
  \<^verbatim>\<open>toISOString\<close>, a string of the ISO 8601 shape for a date of the four-digit
  years. The document is the same whatever the relational store answers and whatever
  timestamp the relational store generates.
\<close>

theorem search_document_contents:
  assumes "elasticsearchService this = Some es"
    and "index_fault w (node es) = None"
    and "r < length (heap s)"
    and "handleLogEvent this w (Some r) s = (res, s')"
  shows "documents s' =
       documents s @
       [(''activity-logs'', (heap s ! r)(''timestamp'' \<mapsto> JString (toISOString (clock w))))] \<and>
     dom ((heap s ! r)(''timestamp'' \<mapsto> JString (toISOString (clock w)))) =
       insert ''timestamp'' (dom (heap s ! r)) \<and>
     (valid_date (clock w) \<longrightarrow> iso8601 (toISOString (clock w))) \<and>
     documents (snd (handleLogEvent this (w\<lparr>save_fault := f, db_now := t\<rparr>) (Some r) s)) =
       documents s'"
proof -
  have run: "s' = snd (handleLogEvent this w (Some r) s)"
    using assms(4) by simp
  have "deref (heap s) r = heap s ! r"
    using assms(3) by (simp add: deref_def)
  with assms(1,2,3) show ?thesis
    unfolding run
    by (simp add: handleLogEvent_documents toISOString_iso8601)
qed

text \<open>
  Scenario 1 of the specification: the document has the four payload fields and the
  timestamp; the row of the same event carries another timestamp.
\<close>

theorem search_document_contents_witness:
  "elasticsearchService (ActivityLogListener example_configuration) =
     Some \<lparr>node = ''http://elasticsearch-service:9200''\<rparr> \<and>
   index_fault healthy ''http://elasticsearch-service:9200'' = None \<and>
   (0::nat) < length (heap example_state) \<and>
   valid_date (clock healthy) \<and>
   documents (snd (handleLogEvent (ActivityLogListener example_configuration) healthy (Some 0) example_state)) =
     [(''activity-logs'', example_payload(''timestamp'' \<mapsto> JString ''2024-03-09T07:05:01.042Z''))] \<and>
   dom (example_payload(''timestamp'' \<mapsto> JString ''2024-03-09T07:05:01.042Z'')) =
     {''userId'', ''url'', ''processType'', ''responseTimeMs'', ''timestamp''} \<and>
   iso8601 ''2024-03-09T07:05:01.042Z'' \<and>
   map (\<lambda>row. row ''timestamp'')
     (rows (snd (handleLogEvent (ActivityLogListener example_configuration) healthy (Some 0) example_state))) =
     [Some (JString ''2024-03-09 15:05:02'')]"
proof -
  have ts: "toISOString (clock healthy) = ''2024-03-09T07:05:01.042Z''"
    by (simp add: toISOString_def healthy_def example_date_def pad2_def pad3_def pad4_def digit_def)
  have v: "valid_date (clock healthy)"
    by (simp add: valid_date_def healthy_def example_date_def)
  have d: "dom (example_payload(''timestamp'' \<mapsto> JString ''2024-03-09T07:05:01.042Z'')) =
     {''userId'', ''url'', ''processType'', ''responseTimeMs'', ''timestamp''}"
    by (auto simp add: example_payload_def split: if_splits)
  have rw: "map (\<lambda>row. row ''timestamp'')
     (rows (snd (handleLogEvent (ActivityLogListener example_configuration) healthy (Some 0) example_state))) =
     [Some (JString ''2024-03-09 15:05:02'')]"
    by (simp add: handleLogEvent_rows healthy_def accept_def example_state_def deref_def
        example_payload_def entity_columns_def upsert_def restrict_map_def Let_def)
  show ?thesis
    using search_document_contents
      [where this = "ActivityLogListener example_configuration"
         and es = "\<lparr>node = ''http://elasticsearch-service:9200''\<rparr>"
         and w = healthy and r = 0 and s = example_state
         and res = "fst (handleLogEvent (ActivityLogListener example_configuration) healthy (Some 0) example_state)"
         and s' = "snd (handleLogEvent (ActivityLogListener example_configuration) healthy (Some 0) example_state)"]
      v d rw
    unfolding ts
    by (simp add: ActivityLogListener_def useFactory_def example_configuration_def healthy_def
        accept_def example_state_def)
qed




text \<open>
  C2, as stated, fails. Without \<^verbatim>\<open>ELASTICSEARCH_NODE\<close> in the configuration the
  listener of the application still makes the indexing call, and with the backend down it
  logs the warning.
\<close>

theorem absent_configuration_counterexample:
  "no_configuration ''ELASTICSEARCH_NODE'' = None \<and>
   trace (snd (handleLogEvent (ActivityLogListener no_configuration) search_down (Some 0) example_state)) =
     [Logged LOG ''Caught log event! User: user-123, URL: /api/endpoint'' None,
      ScopeOpened, ScopeSet ''userId'' (Some (JString ''user-123'')),
      SaveStarted 1, SaveFinished True, ScopeClosed,
      Logged LOG ''Saved to MariaDB'' None,
      IndexStarted ''activity-logs'' 2, IndexFinished False,
      Logged WARN ''Elasticsearch not available, skipping ES save'' None]"
  by (simp add: handleLogEvent_trace example_state_def example_payload_def search_down_def
      accept_def refuse_def ActivityLogListener_def useFactory_def no_configuration_def
      receipt_def deref_def entity_columns_def)

text \<open>
  C2, amended. A listener without a search service makes no indexing call and logs
  nothing about the search sink: its run ends with the log line of the relational block,
  and no document is added. A configuration without \<^verbatim>\<open>ELASTICSEARCH_NODE\<close> does
  not give such a listener: the search module falls back to the node
  \<^verbatim>\<open>http://localhost:9200\<close>, the listener is given a service, and every run on a
  payload that is not null makes the indexing call against that node, logging the warning
  when the call fails.
\<close>

theorem search_skipped_only_without_service:
  "(elasticsearchService this = None \<longrightarrow>
      documents (snd (handleLogEvent this w (Some r) s)) = documents s \<and>
      trace (snd (handleLogEvent this w (Some r) s)) =
        trace s @
        [receipt (deref (heap s) r), ScopeOpened, ScopeSet ''userId'' (deref (heap s) r ''userId''),
         SaveStarted (length (heap s)),
         SaveFinished (save_fault w (deref (heap s) r |` entity_columns) = None), ScopeClosed,
         (case save_fault w (deref (heap s) r |` entity_columns) of
            None \<Rightarrow> Logged LOG ''Saved to MariaDB'' None
          | Some err \<Rightarrow> Logged ERROR ''Failed to save activity log to MariaDB'' (Some err))]) \<and>
   (configService ''ELASTICSEARCH_NODE'' = None \<longrightarrow>
      elasticsearchService (ActivityLogListener configService) =
        Some \<lparr>node = ''http://localhost:9200''\<rparr> \<and>
      trace (snd (handleLogEvent (ActivityLogListener configService) w (Some r) s)) =
        trace s @
        [receipt (deref (heap s) r), ScopeOpened, ScopeSet ''userId'' (deref (heap s) r ''userId''),
         SaveStarted (length (heap s)),
         SaveFinished (save_fault w (deref (heap s) r |` entity_columns) = None), ScopeClosed,
         (case save_fault w (deref (heap s) r |` entity_columns) of
            None \<Rightarrow> Logged LOG ''Saved to MariaDB'' None
          | Some err \<Rightarrow> Logged ERROR ''Failed to save activity log to MariaDB'' (Some err)),
         IndexStarted ''activity-logs'' (Suc (length (heap s))),
         IndexFinished (index_fault w ''http://localhost:9200'' = None),
         (case index_fault w ''http://localhost:9200'' of
            None \<Rightarrow> Logged LOG ''Saved to Elasticsearch'' None
          | Some e \<Rightarrow> Logged WARN ''Elasticsearch not available, skipping ES save'' None)])"
  by (simp add: handleLogEvent_trace handleLogEvent_search_untouched ActivityLogListener_def
      useFactory_def)

text \<open>
  Scenario 3 of the specification for a listener without a service, and the wired listener
  under a configuration without the node.
\<close>

theorem search_skipped_only_without_service_witness:
  "elasticsearchService bare_listener = None \<and>
   no_configuration ''ELASTICSEARCH_NODE'' = None \<and>
   documents (snd (handleLogEvent bare_listener search_down (Some 0) example_state)) = [] \<and>
   trace (snd (handleLogEvent bare_listener search_down (Some 0) example_state)) =
     [Logged LOG ''Caught log event! User: user-123, URL: /api/endpoint'' None,
      ScopeOpened, ScopeSet ''userId'' (Some (JString ''user-123'')),
      SaveStarted 1, SaveFinished True, ScopeClosed,
      Logged LOG ''Saved to MariaDB'' None] \<and>
   elasticsearchService (ActivityLogListener no_configuration) = Some \<lparr>node = ''http://localhost:9200''\<rparr> \<and>
   trace (snd (handleLogEvent (ActivityLogListener no_configuration) healthy (Some 0) example_state)) =
     [Logged LOG ''Caught log event! User: user-123, URL: /api/endpoint'' None,
      ScopeOpened, ScopeSet ''userId'' (Some (JString ''user-123'')),
      SaveStarted 1, SaveFinished True, ScopeClosed,
      Logged LOG ''Saved to MariaDB'' None,
      IndexStarted ''activity-logs'' 2, IndexFinished True,
      Logged LOG ''Saved to Elasticsearch'' None]"
  using search_skipped_only_without_service
      [where this = bare_listener and w = search_down and r = 0 and s = example_state
         and configService = no_configuration]
    search_skipped_only_without_service
      [where this = bare_listener and w = healthy and r = 0 and s = example_state
         and configService = no_configuration]
  by (simp add: bare_listener_def no_configuration_def search_down_def healthy_def accept_def
      refuse_def example_state_def example_payload_def receipt_def deref_def entity_columns_def)

end
